theory Spec2Isabelle
  imports Main
begin

section \<open>The Telegram relay bot of \<^verbatim>\<open>telegram_bot.py\<close>\<close>

text \<open>
  The class \<^verbatim>\<open>ChatGPT3TelegramBot\<close> has four handlers (\<^verbatim>\<open>help\<close>, \<^verbatim>\<open>start\<close>,
  \<^verbatim>\<open>reset\<close>, \<^verbatim>\<open>prompt\<close>) and three helpers (\<^verbatim>\<open>get_chatgpt_response\<close>,
  \<^verbatim>\<open>send_disallowed_message\<close>, \<^verbatim>\<open>is_allowed\<close>). Each one is embedded below as a
  function on an explicit world: the ordered trace of everything the handler did to the
  logger, to the Telegram bot object and to the chat backend, and the state of the
  backend. Exceptions are values: a handler returns \<open>Inl e\<close> when \<open>e\<close> leaves it.
\<close>

subsection \<open>Python values\<close>

text \<open>
  \<^verbatim>\<open>from_user.id\<close> is passed through \<^verbatim>\<open>str()\<close>. Telegram delivers an integer;
  \<^verbatim>\<open>str()\<close> takes a string as well and returns it unchanged.
\<close>

datatype py_value = PyInt int | PyStr string

fun str_nat :: "nat \<Rightarrow> string" where
  "str_nat n =
     (if n < 10 then [''0123456789'' ! n]
      else str_nat (n div 10) @ [''0123456789'' ! (n mod 10)])"

declare str_nat.simps [simp del]

fun py_str :: "py_value \<Rightarrow> string" where
  "py_str (PyStr s) = s"
| "py_str (PyInt i) = (if i < 0 then CHR ''-'' # str_nat (nat (- i)) else str_nat (nat i))"

text \<open>
  \<^verbatim>\<open>s.split(sep)\<close> with a one-character separator: the pieces between the separators,
  in order; an empty string gives one empty piece, and nothing is trimmed.
\<close>

fun split :: "string \<Rightarrow> char \<Rightarrow> string list" where
  "split [] sep = [[]]"
| "split (c # cs) sep =
     (if c = sep then [] # split cs sep
      else (case split cs sep of
              [] \<Rightarrow> [[c]]
            | w # ws \<Rightarrow> (c # w) # ws))"

text \<open>\<^verbatim>\<open>sep.join(pieces)\<close>, used only to state what \<open>split\<close> computes.\<close>

fun join :: "char \<Rightarrow> string list \<Rightarrow> string" where
  "join sep [] = []"
| "join sep [w] = w"
| "join sep (w # v # ws) = w @ sep # join sep (v # ws)"

text \<open>
  What the backend raises is an object of a library outside the repository. The class
  observes two things of it: whether \<^verbatim>\<open>except Exception\<close> catches it, and its
  \<^verbatim>\<open>str()\<close>. So an exception is one of two constructors, each carrying the text that
  \<^verbatim>\<open>str(e)\<close> returns: \<open>Exception\<close> for the instances of \<^verbatim>\<open>Exception\<close> of any class,
  \<open>BaseException\<close> for the others (\<^verbatim>\<open>KeyboardInterrupt\<close>, \<^verbatim>\<open>SystemExit\<close>).
  The text is whatever the interpreter renders: for a \<^verbatim>\<open>KeyError\<close> raised by the
  backend it is the \<^verbatim>\<open>repr\<close> of the key, quotes and escapes included, and the model
  takes it as given instead of computing it.
\<close>

datatype exception = Exception string | BaseException string

fun isinstance_Exception :: "exception \<Rightarrow> bool" where
  "isinstance_Exception (Exception m) = True"
| "isinstance_Exception (BaseException m) = False"

fun str_exception :: "exception \<Rightarrow> string" where
  "str_exception (Exception m) = m"
| "str_exception (BaseException m) = m"

text \<open>
  What leaves a handler: the \<^verbatim>\<open>KeyError\<close> of a subscript of the class itself, with the
  missing key, or an exception of the backend that nothing caught.
\<close>

datatype raised = KeyError string | Backend exception

text \<open>\<^verbatim>\<open>d[k]\<close> on a dictionary with string keys.\<close>

definition getitem :: "(string \<rightharpoonup> 'v) \<Rightarrow> string \<Rightarrow> raised + 'v" where
  "getitem d k = (case d k of None \<Rightarrow> Inl (KeyError k) | Some v \<Rightarrow> Inr v)"

subsection \<open>The update delivered by the Telegram library\<close>

text \<open>
  The parts of \<^verbatim>\<open>telegram.Update\<close> the handlers read: \<^verbatim>\<open>update.message.from_user.id\<close>,
  \<^verbatim>\<open>update.message.from_user.name\<close>, \<^verbatim>\<open>update.message.text\<close>,
  \<^verbatim>\<open>update.message.message_id\<close> and \<^verbatim>\<open>update.effective_chat.id\<close>. The two
  \<^verbatim>\<open>id\<close> attributes are named after their class, since \<open>id\<close> is the identity of HOL.
\<close>

record User =
  User_id :: py_value
  name :: string

record Message =
  from_user :: User
  "text" :: string
  message_id :: int

record Chat =
  Chat_id :: int

record Update =
  message :: Message
  effective_chat :: Chat

subsection \<open>Effects\<close>

text \<open>
  The constants of \<^verbatim>\<open>telegram.constants\<close> are not part of the repository; the two the
  code names are constructors here, beside the library's other values of the same kind.
\<close>

datatype ChatAction = CHATACTION_TYPING | CHATACTION_UPLOAD_PHOTO | CHATACTION_FIND_LOCATION

datatype ParseMode = PARSEMODE_MARKDOWN | PARSEMODE_MARKDOWN_V2 | PARSEMODE_HTML

text \<open>
  The keyword arguments of \<^verbatim>\<open>context.bot.send_message\<close>; \<open>None\<close> is an argument the call
  does not pass.
\<close>

record send_message_args =
  chat_id :: int
  text_arg :: string
  reply_to_message_id :: "int option"
  parse_mode :: "ParseMode option"
  disable_web_page_preview :: "bool option"

text \<open>
  One entry of the trace per call that leaves the class:
  \<^item> \<open>LoggingInfo line\<close>: \<^verbatim>\<open>logging.info(line)\<close>;
  \<^item> \<open>SendMessage args\<close>: \<^verbatim>\<open>context.bot.send_message(**args)\<close>;
  \<^item> \<open>SendChatAction chat action\<close>: \<^verbatim>\<open>context.bot.send_chat_action(chat_id, action)\<close>;
  \<^item> \<open>ReplyText body preview\<close>: \<^verbatim>\<open>update.message.reply_text(body, disable_web_page_preview)\<close>;
  \<^item> \<open>ResetChat\<close>: \<^verbatim>\<open>gpt3_bot.reset_chat()\<close>;
  \<^item> \<open>GetChatResponse msg\<close>: \<^verbatim>\<open>gpt3_bot.get_chat_response(msg)\<close>.
  The calls on the logger and on the Telegram objects are taken to return normally; the
  two calls on the backend may raise.
\<close>

datatype effect =
    LoggingInfo string
  | SendMessage send_message_args
  | SendChatAction int ChatAction
  | ReplyText string "bool option"
  | ResetChat
  | GetChatResponse string

text \<open>
  The backend \<^verbatim>\<open>revChatGPT.Chatbot\<close> is outside the repository: it is a parameter, a
  pair of operations on a state \<open>'b\<close> of its own. A response is a dictionary.
\<close>

type_synonym response = "string \<rightharpoonup> string"

record 'b ChatGPT3Bot =
  get_chat_response :: "string \<Rightarrow> 'b \<Rightarrow> (exception + response) \<times> 'b"
  reset_chat :: "'b \<Rightarrow> (exception + unit) \<times> 'b"

record 'b world =
  trace :: "effect list"
  backend :: 'b

definition emit :: "effect \<Rightarrow> 'b world \<Rightarrow> 'b world" where
  "emit e w = w\<lparr>trace := trace w @ [e]\<rparr>"

subsection \<open>The class\<close>

record 'b ChatGPT3TelegramBot =
  config :: "string \<rightharpoonup> string"
  gpt3_bot :: "'b ChatGPT3Bot"
  disallowed_message :: string

definition init :: "(string \<rightharpoonup> string) \<Rightarrow> 'b ChatGPT3Bot \<Rightarrow> 'b ChatGPT3TelegramBot" where
  "init cfg gpt3 =
     \<lparr>config = cfg, gpt3_bot = gpt3,
      disallowed_message =
        ''Sorry, you are not allowed to use this bot. You can check out the source code at '' @
        ''https://github.com/n3d1117/chatgpt-telegram-bot''\<rparr>"

definition is_allowed :: "'b ChatGPT3TelegramBot \<Rightarrow> Update \<Rightarrow> raised + bool" where
  "is_allowed self update =
     (case getitem (config self) ''allowed_user_ids'' of
        Inl e \<Rightarrow> Inl e
      | Inr ids \<Rightarrow>
          if ids = ''*'' then Inr True
          else Inr (py_str (User_id (from_user (message update))) \<in> set (split ids CHR '','')))"

definition send_disallowed_message ::
  "'b ChatGPT3TelegramBot \<Rightarrow> Update \<Rightarrow> 'b world \<Rightarrow> 'b world" where
  "send_disallowed_message self update w =
     emit (SendMessage
       \<lparr>chat_id = Chat_id (effective_chat update),
        text_arg = disallowed_message self,
        reply_to_message_id = None,
        parse_mode = None,
        disable_web_page_preview = Some True\<rparr>) w"

definition get_chatgpt_response ::
  "'b ChatGPT3TelegramBot \<Rightarrow> string \<Rightarrow> 'b world \<Rightarrow> (raised + response) \<times> 'b world" where
  "get_chatgpt_response self msg w =
     (case get_chat_response (gpt3_bot self) msg (backend w) of
        (Inr response, b) \<Rightarrow> (Inr response, (emit (GetChatResponse msg) w)\<lparr>backend := b\<rparr>)
      | (Inl e, b) \<Rightarrow>
          if isinstance_Exception e
          then (Inr [''message'' \<mapsto>
                       ''I'm having some trouble talking to you, please try again later.''],
                emit (LoggingInfo (''Error while getting the response: '' @ str_exception e))
                  ((emit (GetChatResponse msg) w)\<lparr>backend := b\<rparr>))
          else (Inl (Backend e), (emit (GetChatResponse msg) w)\<lparr>backend := b\<rparr>))"

definition "help" :: "'b ChatGPT3TelegramBot \<Rightarrow> Update \<Rightarrow> 'b world \<Rightarrow> (raised + unit) \<times> 'b world" where
  "help self update w =
     (Inr (),
      emit (ReplyText
        (''/start - Start the bot'' @ [CHR 0x0A] @
         ''/reset - Reset conversation'' @ [CHR 0x0A] @
         ''/help - Help menu'' @ [CHR 0x0A, CHR 0x0A] @
         ''Open source at https://github.com/n3d1117/chatgpt-telegram-bot'')
        (Some True)) w)"

definition start :: "'b ChatGPT3TelegramBot \<Rightarrow> Update \<Rightarrow> 'b world \<Rightarrow> (raised + unit) \<times> 'b world" where
  "start self update w =
     (case is_allowed self update of
        Inl e \<Rightarrow> (Inl e, w)
      | Inr allowed \<Rightarrow>
          if \<not> allowed
          then (Inr (),
                send_disallowed_message self update
                  (emit (LoggingInfo (''User '' @ name (from_user (message update)) @
                                      '' is not allowed to start the bot'')) w))
          else (Inr (),
                emit (SendMessage
                  \<lparr>chat_id = Chat_id (effective_chat update),
                   text_arg = ''I'm a Chat-GPT3 Bot, please talk to me!'',
                   reply_to_message_id = None,
                   parse_mode = None,
                   disable_web_page_preview = None\<rparr>)
                  (emit (LoggingInfo ''Bot started'') w)))"

definition reset :: "'b ChatGPT3TelegramBot \<Rightarrow> Update \<Rightarrow> 'b world \<Rightarrow> (raised + unit) \<times> 'b world" where
  "reset self update w =
     (case is_allowed self update of
        Inl e \<Rightarrow> (Inl e, w)
      | Inr allowed \<Rightarrow>
          if \<not> allowed
          then (Inr (),
                send_disallowed_message self update
                  (emit (LoggingInfo (''User '' @ name (from_user (message update)) @
                                      '' is not allowed to reset the bot'')) w))
          else
            (let w1 = emit (LoggingInfo ''Resetting the conversation...'') w
             in case reset_chat (gpt3_bot self) (backend w1) of
                  (Inl e, b) \<Rightarrow> (Inl (Backend e), (emit ResetChat w1)\<lparr>backend := b\<rparr>)
                | (Inr u, b) \<Rightarrow>
                    (Inr (),
                     emit (SendMessage
                       \<lparr>chat_id = Chat_id (effective_chat update),
                        text_arg = ''Done!'',
                        reply_to_message_id = None,
                        parse_mode = None,
                        disable_web_page_preview = None\<rparr>)
                       ((emit ResetChat w1)\<lparr>backend := b\<rparr>))))"

definition prompt :: "'b ChatGPT3TelegramBot \<Rightarrow> Update \<Rightarrow> 'b world \<Rightarrow> (raised + unit) \<times> 'b world" where
  "prompt self update w =
     (case is_allowed self update of
        Inl e \<Rightarrow> (Inl e, w)
      | Inr allowed \<Rightarrow>
          if \<not> allowed
          then (Inr (),
                send_disallowed_message self update
                  (emit (LoggingInfo (''User '' @ name (from_user (message update)) @
                                      '' is not allowed to use the bot'')) w))
          else
            (let w1 = emit (LoggingInfo (''New message received from user '' @
                                         name (from_user (message update)))) w;
                 w2 = emit (SendChatAction (Chat_id (effective_chat update)) CHATACTION_TYPING) w1
             in case get_chatgpt_response self (text (message update)) w2 of
                  (Inl e, w3) \<Rightarrow> (Inl e, w3)
                | (Inr response, w3) \<Rightarrow>
                    (case getitem response ''message'' of
                       Inl e \<Rightarrow> (Inl e, w3)
                     | Inr m \<Rightarrow>
                         (Inr (),
                          emit (SendMessage
                            \<lparr>chat_id = Chat_id (effective_chat update),
                             text_arg = m,
                             reply_to_message_id = Some (message_id (message update)),
                             parse_mode = Some PARSEMODE_MARKDOWN,
                             disable_web_page_preview = None\<rparr>) w3))))"

subsection \<open>Example inputs\<close>

text \<open>
  A backend that answers every message with \<open>Hi!\<close> and counts its calls, one whose calls
  all raise, and an update from a given sender.
\<close>

definition example_backend :: "nat ChatGPT3Bot" where
  "example_backend =
     \<lparr>get_chat_response = (\<lambda>msg n. (Inr [''message'' \<mapsto> ''Hi!''], Suc n)),
      reset_chat = (\<lambda>n. (Inr (), 0))\<rparr>"

definition failing_backend :: "nat ChatGPT3Bot" where
  "failing_backend =
     \<lparr>get_chat_response = (\<lambda>msg n. (Inl (Exception ''timed out''), Suc n)),
      reset_chat = (\<lambda>n. (Inl (Exception ''timed out''), n))\<rparr>"

definition example_update :: "py_value \<Rightarrow> Update" where
  "example_update uid =
     \<lparr>message =
        \<lparr>from_user = \<lparr>User_id = uid, name = ''@alice''\<rparr>, text = ''Hello'', message_id = 7\<rparr>,
      effective_chat = \<lparr>Chat_id = 42\<rparr>\<rparr>"

definition example_world :: "nat world" where
  "example_world = \<lparr>trace = [], backend = 0\<rparr>"

text \<open>What a handler added to the trace: the entries of \<open>w'\<close> after those of \<open>w\<close>.\<close>

definition emitted :: "'b world \<Rightarrow> 'b world \<Rightarrow> effect list" where
  "emitted w w' = drop (length (trace w)) (trace w')"

section \<open>The access policy\<close>

subsection \<open>What \<open>split\<close> computes\<close>

lemma split_not_Nil: "split s sep \<noteq> []"
  by (induction s) (auto split: list.splits)

text \<open>Joining the pieces with the separator gives the string back.\<close>

lemma join_split: "join sep (split s sep) = s"
proof (induction s)
  case Nil
  show ?case by simp
next
  case (Cons c cs)
  obtain w ws where eq: "split cs sep = w # ws"
    using split_not_Nil [of cs sep] by (cases "split cs sep") auto
  show ?case
  proof (cases "c = sep")
    case True
    with Cons eq show ?thesis by simp
  next
    case False
    with Cons eq show ?thesis by (cases ws) auto
  qed
qed

text \<open>No piece holds a separator, and there is one piece more than there are separators.\<close>

lemma split_pieces_no_sep: "w \<in> set (split s sep) \<Longrightarrow> sep \<notin> set w"
  by (induction s arbitrary: w) (auto split: if_splits list.splits)

lemma length_split: "length (split s sep) = Suc (count_list s sep)"
  by (induction s) (auto split: list.splits simp: split_not_Nil)

subsection \<open>\<open>is_allowed\<close>\<close>

text \<open>
  C2. When the configured allow-list is the sentinel \<^verbatim>\<open>'*'\<close>, \<open>is_allowed\<close> returns
  \<open>True\<close> for every update, whatever the sender's id is (an integer, a string, the empty
  string).
\<close>

theorem is_allowed_sentinel:
  assumes "cfg ''allowed_user_ids'' = Some ''*''"
  shows "is_allowed (init cfg gpt3) update = Inr True"
  using assms by (simp add: is_allowed_def init_def getitem_def)

theorem is_allowed_sentinel_witness:
  "is_allowed (init [''allowed_user_ids'' \<mapsto> ''*''] example_backend)
     (example_update (PyStr [])) = Inr True
   \<and> is_allowed (init [''allowed_user_ids'' \<mapsto> ''*''] example_backend)
     (example_update (PyInt 124)) = Inr True"
  using
    is_allowed_sentinel [of "[''allowed_user_ids'' \<mapsto> ''*'']" example_backend
      "example_update (PyStr [])"]
    is_allowed_sentinel [of "[''allowed_user_ids'' \<mapsto> ''*'']" example_backend
      "example_update (PyInt 124)"]
  by simp

text \<open>
  C3. When the configured allow-list is not the sentinel, \<open>is_allowed\<close> returns whether
  \<^verbatim>\<open>str(id)\<close> of the sender is, character for character, one of the pieces of the
  configured string split at the commas. With \<^verbatim>\<open>'123,456'\<close> the ids \<open>123\<close> and \<open>456\<close>
  are allowed, \<open>124\<close> is not, and neither is \<open>123\<close> with a space before it.
\<close>

theorem is_allowed_listed:
  assumes "cfg ''allowed_user_ids'' = Some ids" and "ids \<noteq> ''*''"
  shows "is_allowed (init cfg gpt3) update =
           Inr (py_str (User_id (from_user (message update))) \<in> set (split ids CHR '',''))"
  using assms by (simp add: is_allowed_def init_def getitem_def)

theorem is_allowed_listed_witness:
  "is_allowed (init [''allowed_user_ids'' \<mapsto> ''123,456''] example_backend)
     (example_update (PyStr ''123'')) = Inr True
   \<and> is_allowed (init [''allowed_user_ids'' \<mapsto> ''123,456''] example_backend)
     (example_update (PyStr ''124'')) = Inr False
   \<and> is_allowed (init [''allowed_user_ids'' \<mapsto> ''123,456''] example_backend)
     (example_update (PyInt 456)) = Inr True
   \<and> is_allowed (init [''allowed_user_ids'' \<mapsto> ''123,456''] example_backend)
     (example_update (PyStr '' 123'')) = Inr False"
  using
    is_allowed_listed [of "[''allowed_user_ids'' \<mapsto> ''123,456'']" "''123,456''"
      example_backend "example_update (PyStr ''123'')"]
    is_allowed_listed [of "[''allowed_user_ids'' \<mapsto> ''123,456'']" "''123,456''"
      example_backend "example_update (PyStr ''124'')"]
    is_allowed_listed [of "[''allowed_user_ids'' \<mapsto> ''123,456'']" "''123,456''"
      example_backend "example_update (PyInt 456)"]
    is_allowed_listed [of "[''allowed_user_ids'' \<mapsto> ''123,456'']" "''123,456''"
      example_backend "example_update (PyStr '' 123'')"]
  by (simp add: example_update_def str_nat.simps)

section \<open>The handlers\<close>

text \<open>
  In the theorems below \<open>w\<close> is the world before the handler runs; the result shows the
  value the handler returns and the world after it, so the entries appended to the trace
  are all the handler did, in the order it did them.
\<close>

subsection \<open>Senders that are not allowed\<close>

text \<open>
  C1. When \<open>is_allowed\<close> returns \<open>False\<close>, each of \<open>start\<close>, \<open>reset\<close> and \<open>prompt\<close>
  returns normally after one \<^verbatim>\<open>send_message\<close> to the chat of the update, carrying the
  fixed notice, plain, not threaded, with the link preview off. The handler calls
  neither the backend (no \<open>ResetChat\<close>, no \<open>GetChatResponse\<close>, the backend state is the
  one of \<open>w\<close>) nor \<^verbatim>\<open>send_chat_action\<close>. The only other entry of the trace is the line the
  handler hands to \<^verbatim>\<open>logging.info\<close> before it sends the notice.
\<close>

theorem disallowed_sender_rejected:
  assumes "is_allowed (init cfg gpt3) update = Inr False"
  shows "let notice = SendMessage
             \<lparr>chat_id = Chat_id (effective_chat update),
              text_arg = 
                ''Sorry, you are not allowed to use this bot. You can check out the source code at https://github.com/n3d1117/chatgpt-telegram-bot'',
              reply_to_message_id = None,
              parse_mode = None,
              disable_web_page_preview = Some True\<rparr>;
             user = name (from_user (message update))
         in start (init cfg gpt3) update w =
              (Inr (), w\<lparr>trace := trace w @
                 [LoggingInfo (''User '' @ user @ '' is not allowed to start the bot''), notice]\<rparr>)
          \<and> reset (init cfg gpt3) update w =
              (Inr (), w\<lparr>trace := trace w @
                 [LoggingInfo (''User '' @ user @ '' is not allowed to reset the bot''), notice]\<rparr>)
          \<and> prompt (init cfg gpt3) update w =
              (Inr (), w\<lparr>trace := trace w @
                 [LoggingInfo (''User '' @ user @ '' is not allowed to use the bot''), notice]\<rparr>)"
  using assms
  by (simp add: Let_def start_def reset_def prompt_def send_disallowed_message_def emit_def
      init_def)

theorem disallowed_sender_rejected_witness:
  "is_allowed (init [''allowed_user_ids'' \<mapsto> ''123,456''] example_backend)
     (example_update (PyInt 124)) = Inr False
   \<and> prompt (init [''allowed_user_ids'' \<mapsto> ''123,456''] example_backend)
       (example_update (PyInt 124)) example_world =
     (Inr (),
      \<lparr>trace =
         [LoggingInfo ''User @alice is not allowed to use the bot'',
          SendMessage
            \<lparr>chat_id = 42,
             text_arg = 
                ''Sorry, you are not allowed to use this bot. You can check out the source code at https://github.com/n3d1117/chatgpt-telegram-bot'',
             reply_to_message_id = None,
             parse_mode = None,
             disable_web_page_preview = Some True\<rparr>],
       backend = 0\<rparr>)"
proof -
  have denied:
    "is_allowed (init [''allowed_user_ids'' \<mapsto> ''123,456''] example_backend)
       (example_update (PyInt 124)) = Inr False"
    by (simp add: is_allowed_def init_def getitem_def example_update_def str_nat.simps)
  from disallowed_sender_rejected [OF denied, of example_world] denied
  show ?thesis
    by (simp add: Let_def example_update_def example_world_def)
qed

subsection \<open>\<open>prompt\<close>\<close>

text \<open>
  C4. For an allowed sender, when \<^verbatim>\<open>get_chat_response\<close> returns a dictionary whose
  \<^verbatim>\<open>'message'\<close> is \<open>m\<close>, \<open>prompt\<close> sends the typing action to the chat of the update, calls
  the backend with the text of the message, and then sends one message: text \<open>m\<close>, parse
  mode Markdown, in reply to the id of the incoming message.
\<close>

theorem prompt_relays_response:
  assumes "is_allowed (init cfg gpt3) update = Inr True"
    and "get_chat_response gpt3 (text (message update)) (backend w) = (Inr response, b)"
    and "response ''message'' = Some m"
  shows "prompt (init cfg gpt3) update w =
           (Inr (),
            w\<lparr>trace := trace w @
                 [LoggingInfo (''New message received from user '' @
                               name (from_user (message update))),
                  SendChatAction (Chat_id (effective_chat update)) CHATACTION_TYPING,
                  GetChatResponse (text (message update)),
                  SendMessage
                    \<lparr>chat_id = Chat_id (effective_chat update),
                     text_arg = m,
                     reply_to_message_id = Some (message_id (message update)),
                     parse_mode = Some PARSEMODE_MARKDOWN,
                     disable_web_page_preview = None\<rparr>],
              backend := b\<rparr>)"
  using assms
  by (simp add: prompt_def get_chatgpt_response_def getitem_def emit_def init_def Let_def)

theorem prompt_relays_response_witness:
  "prompt (init [''allowed_user_ids'' \<mapsto> ''123,456''] example_backend)
     (example_update (PyInt 123)) example_world =
   (Inr (),
    \<lparr>trace =
       [LoggingInfo ''New message received from user @alice'',
        SendChatAction 42 CHATACTION_TYPING,
        GetChatResponse ''Hello'',
        SendMessage
          \<lparr>chat_id = 42,
           text_arg = ''Hi!'',
           reply_to_message_id = Some 7,
           parse_mode = Some PARSEMODE_MARKDOWN,
           disable_web_page_preview = None\<rparr>],
     backend = 1\<rparr>)"
proof -
  have allowed:
    "is_allowed (init [''allowed_user_ids'' \<mapsto> ''123,456''] example_backend)
       (example_update (PyInt 123)) = Inr True"
    by (simp add: is_allowed_def init_def getitem_def example_update_def str_nat.simps)
  have answer:
    "get_chat_response example_backend (text (message (example_update (PyInt 123))))
       (backend example_world) = (Inr [''message'' \<mapsto> ''Hi!''], 1)"
    by (simp add: example_backend_def example_world_def)
  have field: "[''message'' \<mapsto> ''Hi!''] ''message'' = Some ''Hi!''"
    by simp
  from prompt_relays_response [OF allowed answer field]
  show ?thesis
    by (simp add: example_update_def example_world_def)
qed

text \<open>
  C5. For an allowed sender, when \<^verbatim>\<open>get_chat_response\<close> raises an \<^verbatim>\<open>Exception\<close>,
  \<open>prompt\<close> returns normally: \<open>get_chatgpt_response\<close> logs the exception (the fixed
  prefix followed by \<^verbatim>\<open>str(e)\<close>) and answers with the apology, which \<open>prompt\<close> sends
  with parse mode Markdown in reply to the id of the incoming message.
\<close>

theorem prompt_backend_failure:
  assumes "is_allowed (init cfg gpt3) update = Inr True"
    and "get_chat_response gpt3 (text (message update)) (backend w) = (Inl e, b)"
    and "isinstance_Exception e"
  shows "prompt (init cfg gpt3) update w =
           (Inr (),
            w\<lparr>trace := trace w @
                 [LoggingInfo (''New message received from user '' @
                               name (from_user (message update))),
                  SendChatAction (Chat_id (effective_chat update)) CHATACTION_TYPING,
                  GetChatResponse (text (message update)),
                  LoggingInfo (''Error while getting the response: '' @ str_exception e),
                  SendMessage
                    \<lparr>chat_id = Chat_id (effective_chat update),
                     text_arg =
                       ''I'm having some trouble talking to you, please try again later.'',
                     reply_to_message_id = Some (message_id (message update)),
                     parse_mode = Some PARSEMODE_MARKDOWN,
                     disable_web_page_preview = None\<rparr>],
              backend := b\<rparr>)"
  using assms
  by (simp add: prompt_def get_chatgpt_response_def getitem_def emit_def init_def Let_def)

theorem prompt_backend_failure_witness:
  "prompt (init [''allowed_user_ids'' \<mapsto> ''*''] failing_backend)
     (example_update (PyInt 124)) example_world =
   (Inr (),
    \<lparr>trace =
       [LoggingInfo ''New message received from user @alice'',
        SendChatAction 42 CHATACTION_TYPING,
        GetChatResponse ''Hello'',
        LoggingInfo ''Error while getting the response: timed out'',
        SendMessage
          \<lparr>chat_id = 42,
           text_arg = ''I'm having some trouble talking to you, please try again later.'',
           reply_to_message_id = Some 7,
           parse_mode = Some PARSEMODE_MARKDOWN,
           disable_web_page_preview = None\<rparr>],
     backend = 1\<rparr>)"
proof -
  have allowed:
    "is_allowed (init [''allowed_user_ids'' \<mapsto> ''*''] failing_backend)
       (example_update (PyInt 124)) = Inr True"
    by (simp add: is_allowed_def init_def getitem_def)
  have raises:
    "get_chat_response failing_backend (text (message (example_update (PyInt 124))))
       (backend example_world) = (Inl (Exception ''timed out''), 1)"
    by (simp add: failing_backend_def example_world_def)
  have caught: "isinstance_Exception (Exception ''timed out'')"
    by simp
  from prompt_backend_failure [OF allowed raises caught]
  show ?thesis
    by (simp add: example_update_def example_world_def)
qed

text \<open>
  C9. For an allowed sender, whatever the backend does, \<open>prompt\<close> sends the typing action
  once, and before it calls the backend: the trace grows by the log line, the typing
  action and the backend call, followed by entries among which there is no further chat
  action. When the backend call raises an \<^verbatim>\<open>Exception\<close>, those entries are the log line
  of the failure and the apology, so the Telegram bot sees the typing action and then
  the apology.
\<close>

theorem typing_once_before_backend:
  assumes "is_allowed (init cfg gpt3) update = Inr True"
  shows "\<exists>r rest b.
           prompt (init cfg gpt3) update w =
             (r, w\<lparr>trace := trace w @
                     [LoggingInfo (''New message received from user '' @
                                   name (from_user (message update))),
                      SendChatAction (Chat_id (effective_chat update)) CHATACTION_TYPING,
                      GetChatResponse (text (message update))] @ rest,
                   backend := b\<rparr>)
         \<and> (\<forall>c a. SendChatAction c a \<notin> set rest)
         \<and> (\<forall>e. fst (get_chat_response gpt3 (text (message update)) (backend w)) = Inl e
                \<and> isinstance_Exception e \<longrightarrow>
              r = Inr () \<and>
              rest =
                [LoggingInfo (''Error while getting the response: '' @ str_exception e),
                 SendMessage
                   \<lparr>chat_id = Chat_id (effective_chat update),
                    text_arg = ''I'm having some trouble talking to you, please try again later.'',
                    reply_to_message_id = Some (message_id (message update)),
                    parse_mode = Some PARSEMODE_MARKDOWN,
                    disable_web_page_preview = None\<rparr>])"
proof -
  obtain res b where call: "get_chat_response gpt3 (text (message update)) (backend w) = (res, b)"
    by (cases "get_chat_response gpt3 (text (message update)) (backend w)")
  show ?thesis
  proof (cases res)
    case (Inl e)
    show ?thesis
    proof (cases "isinstance_Exception e")
      case True
      let ?rest =
        "[LoggingInfo (''Error while getting the response: '' @ str_exception e),
          SendMessage
            \<lparr>chat_id = Chat_id (effective_chat update),
             text_arg = ''I'm having some trouble talking to you, please try again later.'',
             reply_to_message_id = Some (message_id (message update)),
             parse_mode = Some PARSEMODE_MARKDOWN,
             disable_web_page_preview = None\<rparr>]"
      from assms call Inl True have
        "prompt (init cfg gpt3) update w =
           (Inr (), w\<lparr>trace := trace w @
                     [LoggingInfo (''New message received from user '' @
                                   name (from_user (message update))),
                      SendChatAction (Chat_id (effective_chat update)) CHATACTION_TYPING,
                      GetChatResponse (text (message update))] @ ?rest,
                   backend := b\<rparr>)"
        by (simp add: prompt_def get_chatgpt_response_def getitem_def emit_def init_def Let_def)
      with call Inl show ?thesis
        by (intro exI [of _ "Inr ()"] exI [of _ ?rest] exI [of _ b]) simp
    next
      case False
      with assms call Inl have
        "prompt (init cfg gpt3) update w =
           (Inl (Backend e), w\<lparr>trace := trace w @
                     [LoggingInfo (''New message received from user '' @
                                   name (from_user (message update))),
                      SendChatAction (Chat_id (effective_chat update)) CHATACTION_TYPING,
                      GetChatResponse (text (message update))] @ [],
                   backend := b\<rparr>)"
        by (simp add: prompt_def get_chatgpt_response_def getitem_def emit_def init_def Let_def)
      with call Inl False show ?thesis by (intro exI [of _ "Inl (Backend e)"] exI [of _ "[]"] exI [of _ b]) simp
    qed
  next
    case (Inr response)
    show ?thesis
    proof (cases "response ''message''")
      case None
      with assms call Inr have
        "prompt (init cfg gpt3) update w =
           (Inl (KeyError ''message''), w\<lparr>trace := trace w @
                     [LoggingInfo (''New message received from user '' @
                                   name (from_user (message update))),
                      SendChatAction (Chat_id (effective_chat update)) CHATACTION_TYPING,
                      GetChatResponse (text (message update))] @ [],
                   backend := b\<rparr>)"
        by (simp add: prompt_def get_chatgpt_response_def getitem_def emit_def init_def Let_def)
      with call Inr show ?thesis
        by (intro exI [of _ "Inl (KeyError ''message'')"] exI [of _ "[]"] exI [of _ b]) simp
    next
      case (Some m)
      with assms call Inr have
        "prompt (init cfg gpt3) update w =
           (Inr (), w\<lparr>trace := trace w @
                     [LoggingInfo (''New message received from user '' @
                                   name (from_user (message update))),
                      SendChatAction (Chat_id (effective_chat update)) CHATACTION_TYPING,
                      GetChatResponse (text (message update))] @
                     [SendMessage
                        \<lparr>chat_id = Chat_id (effective_chat update),
                         text_arg = m,
                         reply_to_message_id = Some (message_id (message update)),
                         parse_mode = Some PARSEMODE_MARKDOWN,
                         disable_web_page_preview = None\<rparr>],
                   backend := b\<rparr>)"
        by (simp add: prompt_def get_chatgpt_response_def getitem_def emit_def init_def Let_def)
      with call Inr show ?thesis
        by (intro exI [of _ "Inr ()"] exI [of _ "[SendMessage
                        \<lparr>chat_id = Chat_id (effective_chat update),
                         text_arg = m,
                         reply_to_message_id = Some (message_id (message update)),
                         parse_mode = Some PARSEMODE_MARKDOWN,
                         disable_web_page_preview = None\<rparr>]"] exI [of _ b]) simp
    qed
  qed
qed

theorem typing_once_before_backend_witness:
  "is_allowed (init [''allowed_user_ids'' \<mapsto> ''*''] failing_backend)
     (example_update (PyStr ''alice'')) = Inr True
   \<and> fst (get_chat_response failing_backend (text (message (example_update (PyStr ''alice''))))
          (backend example_world)) = Inl (Exception ''timed out'')
   \<and> isinstance_Exception (Exception ''timed out'')
   \<and> emitted example_world
         (snd (prompt (init [''allowed_user_ids'' \<mapsto> ''*''] failing_backend)
                (example_update (PyStr ''alice'')) example_world)) =
       [LoggingInfo ''New message received from user @alice'',
        SendChatAction 42 CHATACTION_TYPING,
        GetChatResponse ''Hello'',
        LoggingInfo ''Error while getting the response: timed out'',
        SendMessage
          \<lparr>chat_id = 42,
           text_arg = ''I'm having some trouble talking to you, please try again later.'',
           reply_to_message_id = Some 7,
           parse_mode = Some PARSEMODE_MARKDOWN,
           disable_web_page_preview = None\<rparr>]"
proof -
  have allowed:
    "is_allowed (init [''allowed_user_ids'' \<mapsto> ''*''] failing_backend)
       (example_update (PyStr ''alice'')) = Inr True"
    by (simp add: is_allowed_def init_def getitem_def)
  have raises:
    "fst (get_chat_response failing_backend (text (message (example_update (PyStr ''alice''))))
       (backend example_world)) = Inl (Exception ''timed out'')"
    by (simp add: failing_backend_def example_world_def)
  from typing_once_before_backend [OF allowed, of example_world] obtain r rest b where
    run: "prompt (init [''allowed_user_ids'' \<mapsto> ''*''] failing_backend)
            (example_update (PyStr ''alice'')) example_world =
          (r, example_world\<lparr>trace := trace example_world @
                [LoggingInfo (''New message received from user '' @
                              name (from_user (message (example_update (PyStr ''alice''))))),
                 SendChatAction (Chat_id (effective_chat (example_update (PyStr ''alice''))))
                   CHATACTION_TYPING,
                 GetChatResponse (text (message (example_update (PyStr ''alice''))))] @ rest,
              backend := b\<rparr>)"
    and failure:
      "\<forall>e. fst (get_chat_response failing_backend
                 (text (message (example_update (PyStr ''alice'')))) (backend example_world)) =
             Inl e \<and> isinstance_Exception e \<longrightarrow>
           r = Inr () \<and>
           rest =
             [LoggingInfo (''Error while getting the response: '' @ str_exception e),
              SendMessage
                \<lparr>chat_id = Chat_id (effective_chat (example_update (PyStr ''alice''))),
                 text_arg = ''I'm having some trouble talking to you, please try again later.'',
                 reply_to_message_id = Some (message_id (message (example_update (PyStr ''alice'')))),
                 parse_mode = Some PARSEMODE_MARKDOWN,
                 disable_web_page_preview = None\<rparr>]"
    by blast
  from failure raises have
    "rest =
       [LoggingInfo (''Error while getting the response: '' @ str_exception (Exception ''timed out'')),
        SendMessage
          \<lparr>chat_id = Chat_id (effective_chat (example_update (PyStr ''alice''))),
           text_arg = ''I'm having some trouble talking to you, please try again later.'',
           reply_to_message_id = Some (message_id (message (example_update (PyStr ''alice'')))),
           parse_mode = Some PARSEMODE_MARKDOWN,
           disable_web_page_preview = None\<rparr>]"
    by simp
  with run allowed raises show ?thesis
    by (simp add: emitted_def example_update_def example_world_def)
qed

subsection \<open>\<open>reset\<close>\<close>

text \<open>
  C6. For an allowed sender, when \<^verbatim>\<open>reset_chat\<close> returns, \<open>reset\<close> has called it once
  and then sends one message to the chat of the update, with the text \<open>Done!\<close>.
\<close>

theorem reset_confirms:
  assumes "is_allowed (init cfg gpt3) update = Inr True"
    and "reset_chat gpt3 (backend w) = (Inr (), b)"
  shows "reset (init cfg gpt3) update w =
           (Inr (),
            w\<lparr>trace := trace w @
                 [LoggingInfo ''Resetting the conversation...'',
                  ResetChat,
                  SendMessage
                    \<lparr>chat_id = Chat_id (effective_chat update),
                     text_arg = ''Done!'',
                     reply_to_message_id = None,
                     parse_mode = None,
                     disable_web_page_preview = None\<rparr>],
              backend := b\<rparr>)
         \<and> count_list (emitted w (snd (reset (init cfg gpt3) update w))) ResetChat = 1"
  using assms
  by (simp add: reset_def emit_def init_def Let_def emitted_def)

theorem reset_confirms_witness:
  "reset (init [''allowed_user_ids'' \<mapsto> ''123,456''] example_backend)
     (example_update (PyInt 456)) \<lparr>trace = [], backend = 5\<rparr> =
   (Inr (),
    \<lparr>trace =
       [LoggingInfo ''Resetting the conversation...'',
        ResetChat,
        SendMessage
          \<lparr>chat_id = 42,
           text_arg = ''Done!'',
           reply_to_message_id = None,
           parse_mode = None,
           disable_web_page_preview = None\<rparr>],
     backend = 0\<rparr>)"
proof -
  have allowed:
    "is_allowed (init [''allowed_user_ids'' \<mapsto> ''123,456''] example_backend)
       (example_update (PyInt 456)) = Inr True"
    by (simp add: is_allowed_def init_def getitem_def example_update_def str_nat.simps)
  have returns:
    "reset_chat example_backend (backend \<lparr>trace = [], backend = 5\<rparr>) = (Inr (), 0)"
    by (simp add: example_backend_def)
  from reset_confirms [OF allowed returns]
  show ?thesis
    by (simp add: example_update_def)
qed

text \<open>
  C7. For an allowed sender, when \<^verbatim>\<open>reset_chat\<close> raises, whatever it raises leaves
  \<open>reset\<close>: nothing catches it, and nothing is sent after the call.
\<close>

theorem reset_failure_propagates:
  assumes "is_allowed (init cfg gpt3) update = Inr True"
    and "reset_chat gpt3 (backend w) = (Inl e, b)"
  shows "reset (init cfg gpt3) update w =
           (Inl (Backend e),
            w\<lparr>trace := trace w @ [LoggingInfo ''Resetting the conversation...'', ResetChat],
              backend := b\<rparr>)"
  using assms
  by (simp add: reset_def emit_def init_def Let_def)

theorem reset_failure_propagates_witness:
  "reset (init [''allowed_user_ids'' \<mapsto> ''*''] failing_backend)
     (example_update (PyInt 456)) example_world =
   (Inl (Backend (Exception ''timed out'')),
    \<lparr>trace = [LoggingInfo ''Resetting the conversation...'', ResetChat], backend = 0\<rparr>)"
proof -
  have allowed:
    "is_allowed (init [''allowed_user_ids'' \<mapsto> ''*''] failing_backend)
       (example_update (PyInt 456)) = Inr True"
    by (simp add: is_allowed_def init_def getitem_def)
  have raises:
    "reset_chat failing_backend (backend example_world) = (Inl (Exception ''timed out''), 0)"
    by (simp add: failing_backend_def example_world_def)
  from reset_failure_propagates [OF allowed raises]
  show ?thesis
    by (simp add: example_world_def)
qed

subsection \<open>\<open>help\<close>\<close>

text \<open>
  C8. \<open>help\<close> never looks at the sender or at the configuration: for every bot, update
  and world it returns normally after one \<^verbatim>\<open>reply_text\<close> with the usage text (a line
  for each of \<^verbatim>\<open>/start\<close>, \<^verbatim>\<open>/reset\<close> and \<^verbatim>\<open>/help\<close>, an empty line, and the address of
  the sources), passing \<^verbatim>\<open>disable_web_page_preview=True\<close>.
\<close>

theorem help_unconditional:
  "help self update w =
     (Inr (),
      w\<lparr>trace := trace w @
        [ReplyText
           (''/start - Start the bot'' @ [CHR 0x0A] @
            ''/reset - Reset conversation'' @ [CHR 0x0A] @
            ''/help - Help menu'' @ [CHR 0x0A, CHR 0x0A] @
            ''Open source at https://github.com/n3d1117/chatgpt-telegram-bot'')
           (Some True)]\<rparr>)"
  by (simp add: help_def emit_def)

text \<open>The same for a sender that \<open>is_allowed\<close> turns down; the usage text, line by line.\<close>

theorem help_unconditional_witness:
  "is_allowed (init [''allowed_user_ids'' \<mapsto> ''123,456''] example_backend)
     (example_update (PyInt 124)) = Inr False
   \<and> (\<exists>usage.
        help (init [''allowed_user_ids'' \<mapsto> ''123,456''] example_backend)
          (example_update (PyInt 124)) example_world =
        (Inr (), \<lparr>trace = [ReplyText usage (Some True)], backend = 0\<rparr>)
        \<and> split usage (CHR 0x0A) =
            [''/start - Start the bot'',
             ''/reset - Reset conversation'',
             ''/help - Help menu'',
             [],
             ''Open source at https://github.com/n3d1117/chatgpt-telegram-bot''])"
proof -
  have denied:
    "is_allowed (init [''allowed_user_ids'' \<mapsto> ''123,456''] example_backend)
       (example_update (PyInt 124)) = Inr False"
    by (simp add: is_allowed_def init_def getitem_def example_update_def str_nat.simps)
  from help_unconditional
    [of "init [''allowed_user_ids'' \<mapsto> ''123,456''] example_backend"
      "example_update (PyInt 124)" example_world]
    denied
  show ?thesis
    by (simp add: example_world_def)
qed

subsection \<open>Threading and formatting of the replies\<close>

text \<open>
  C10. Every message \<open>start\<close>, \<open>reset\<close> and \<open>send_disallowed_message\<close> send has no
  \<^verbatim>\<open>reply_to_message_id\<close> and no \<^verbatim>\<open>parse_mode\<close>: the greeting, \<open>Done!\<close> and the notice
  are plain and not threaded. A message \<open>prompt\<close> sends for an allowed sender is in reply
  to the incoming message and in Markdown; the one it sends otherwise is the notice.
  (The reply of \<open>help\<close> goes through \<^verbatim>\<open>reply_text\<close>, not \<^verbatim>\<open>send_message\<close>.)
\<close>

theorem reply_threading:
  "(\<forall>a. SendMessage a \<in> set (emitted w (snd (start self update w))) \<longrightarrow>
       reply_to_message_id a = None \<and> parse_mode a = None)
   \<and> (\<forall>a. SendMessage a \<in> set (emitted w (snd (reset self update w))) \<longrightarrow>
       reply_to_message_id a = None \<and> parse_mode a = None)
   \<and> (\<forall>a. SendMessage a \<in> set (emitted w (send_disallowed_message self update w)) \<longrightarrow>
       reply_to_message_id a = None \<and> parse_mode a = None)
   \<and> (\<forall>a. SendMessage a \<in> set (emitted w (snd (prompt self update w))) \<longrightarrow>
       (if is_allowed self update = Inr True
        then reply_to_message_id a = Some (message_id (message update)) \<and>
             parse_mode a = Some PARSEMODE_MARKDOWN
        else reply_to_message_id a = None \<and> parse_mode a = None))"
  by (auto simp: start_def reset_def prompt_def send_disallowed_message_def
      get_chatgpt_response_def emit_def emitted_def Let_def
      split: sum.splits prod.splits if_splits)

theorem reply_threading_witness:
  "emitted example_world
     (snd (start (init [''allowed_user_ids'' \<mapsto> ''*''] example_backend)
            (example_update (PyInt 124)) example_world)) =
     [LoggingInfo ''Bot started'',
      SendMessage
        \<lparr>chat_id = 42,
         text_arg = ''I'm a Chat-GPT3 Bot, please talk to me!'',
         reply_to_message_id = None,
         parse_mode = None,
         disable_web_page_preview = None\<rparr>]
   \<and> emitted example_world
     (snd (prompt (init [''allowed_user_ids'' \<mapsto> ''*''] example_backend)
            (example_update (PyInt 124)) example_world)) =
     [LoggingInfo ''New message received from user @alice'',
      SendChatAction 42 CHATACTION_TYPING,
      GetChatResponse ''Hello'',
      SendMessage
        \<lparr>chat_id = 42,
         text_arg = ''Hi!'',
         reply_to_message_id = Some 7,
         parse_mode = Some PARSEMODE_MARKDOWN,
         disable_web_page_preview = None\<rparr>]"
proof -
  have allowed:
    "is_allowed (init [''allowed_user_ids'' \<mapsto> ''*''] example_backend)
       (example_update (PyInt 124)) = Inr True"
    by (simp add: is_allowed_def init_def getitem_def)
  have greeting:
    "emitted example_world
       (snd (start (init [''allowed_user_ids'' \<mapsto> ''*''] example_backend)
              (example_update (PyInt 124)) example_world)) =
     [LoggingInfo ''Bot started'',
      SendMessage
        \<lparr>chat_id = 42,
         text_arg = ''I'm a Chat-GPT3 Bot, please talk to me!'',
         reply_to_message_id = None,
         parse_mode = None,
         disable_web_page_preview = None\<rparr>]"
    using allowed
    by (simp add: start_def emit_def emitted_def example_update_def example_world_def)
  have answer:
    "emitted example_world
       (snd (prompt (init [''allowed_user_ids'' \<mapsto> ''*''] example_backend)
              (example_update (PyInt 124)) example_world)) =
     [LoggingInfo ''New message received from user @alice'',
      SendChatAction 42 CHATACTION_TYPING,
      GetChatResponse ''Hello'',
      SendMessage
        \<lparr>chat_id = 42,
         text_arg = ''Hi!'',
         reply_to_message_id = Some 7,
         parse_mode = Some PARSEMODE_MARKDOWN,
         disable_web_page_preview = None\<rparr>]"
    using allowed
    by (simp add: prompt_def get_chatgpt_response_def getitem_def emit_def emitted_def
        example_backend_def example_update_def example_world_def init_def)
  from reply_threading
    [of example_world "init [''allowed_user_ids'' \<mapsto> ''*''] example_backend"
      "example_update (PyInt 124)"]
    greeting answer
  show ?thesis
    by simp
qed

end
